theory Spec2Isabelle
  imports Main "HOL-Library.Sublist"
begin

section \<open>The research-agent page (main.py) as a function of its inputs\<close>

text \<open>
  main.py is a Streamlit script: every user interaction runs it again from its first
  line, with the widgets returning the values the user has set. One run is modelled as
  a function of those values, of the environment variable it reads and of the remote
  completion call, which is a parameter. The run returns how it ended and a log of what
  it did: the completion calls it made, in order, and the outputs it wrote.
\<close>

subsection \<open>Python strings\<close>

text \<open>
  A Python \<open>str\<close> is a sequence of Unicode code points; slicing and \<open>len\<close> count
  code points. A string is therefore a list of code points, and a literal of the
  source (all of those used below are ASCII) is read off an Isabelle literal.
\<close>

type_synonym str = "nat list"

definition lit :: "string \<Rightarrow> str" where
  "lit s = map of_char s"

text \<open>
  \<open>str.isspace\<close> on one code point, as \<open>str.strip()\<close> with no argument uses it:
  the code points of Unicode's White\_Space property and of bidirectional classes
  WS, B and S.
\<close>

definition isspace :: "nat \<Rightarrow> bool" where
  "isspace c \<longleftrightarrow>
     (9 \<le> c \<and> c \<le> 13) \<or> (28 \<le> c \<and> c \<le> 32) \<or> c = 133 \<or> c = 160 \<or> c = 5760 \<or>
     (8192 \<le> c \<and> c \<le> 8202) \<or> c = 8232 \<or> c = 8233 \<or> c = 8239 \<or> c = 8287 \<or>
     c = 12288"

definition strip :: "str \<Rightarrow> str" where
  "strip s = rev (dropWhile isspace (rev (dropWhile isspace s)))"

subsection \<open>Widgets and environment\<close>

text \<open>The three options of the radio "Response Style" (line 40).\<close>

datatype mode = Simple | Explain_Like_Im_5 | Technical

text \<open>The five options of the select box "Choose a tool" (lines 71-77).\<close>

datatype tool =
    No_Tool
  | PDF_Summarization
  | Keyword_Extraction
  | APA_Reference_Generator
  | Concept_Explainer

text \<open>
  What one run of the script reads. \<open>api_key\<close> is \<open>os.getenv("GEMINI_API_KEY")\<close>
  (\<open>None\<close> when the variable is unset). A button is \<open>True\<close> in the run its click
  starts. \<open>pdf\<close> is the uploaded file, given by what \<open>extract_text()\<close> returns for
  each of its pages, in order; \<open>None\<close> when no file is uploaded.
\<close>

record inputs =
  api_key :: "str option"
  mode :: mode
  question :: str
  get_answer :: bool
  tool :: tool
  pdf :: "str list option"
  summarize_pdf :: bool
  content :: str
  extract_keywords :: bool
  reference_text :: str
  generate_apa :: bool
  concept :: str
  explain_concept :: bool

subsection \<open>The instruction table and the agent\<close>

text \<open>The dictionary \<open>instructions\<close> (lines 45-49), keyed by the radio's options.\<close>

definition instructions :: "mode \<rightharpoonup> str" where
  "instructions = map_of
     [(Simple, lit ''Give a short, clear, and factual response for any academic or research question.''),
      (Explain_Like_Im_5, lit ''Explain the answer in very simple, easy-to-understand terms, like to a 5-year-old.''),
      (Technical, lit ''Provide a detailed and technical explanation with examples, references, or formulas if needed.'')]"

record agent =
  agent_name :: str
  agent_instructions :: str

text \<open>
  What can end a run early: a missing dictionary key (\<open>instructions[mode]\<close>,
  line 54), or whatever \<open>Runner.run\<close> raises; the script has no \<open>try\<close>.
\<close>

datatype 'e exn = KeyError | RunnerError 'e

text \<open>
  \<open>Runner.run(agent, input=prompt, run_config=config)\<close> under \<open>asyncio.run\<close>:
  the final output of the completion, or the exception it raises.
\<close>

type_synonym 'e runner = "agent \<Rightarrow> str \<Rightarrow> 'e + str"

record log =
  calls :: "(agent \<times> str) list"
  written :: "str list"

definition empty_log :: log where
  "empty_log = \<lparr>calls = [], written = []\<rparr>"

text \<open>
  The block every branch ends with (lines 64-67, 86-88, 95-97, 104-106, 113-115):
  one call of the runner, then \<open>st.write(response.final_output)\<close>. An exception of
  the call leaves the block before anything is written.
\<close>

definition respond :: "'e runner \<Rightarrow> agent \<Rightarrow> str \<Rightarrow> log \<Rightarrow> 'e exn option \<times> log" where
  "respond Runner_run a prompt l =
     (let l1 = l\<lparr>calls := calls l @ [(a, prompt)]\<rparr> in
      case Runner_run a prompt of
        Inl e \<Rightarrow> (Some (RunnerError e), l1)
      | Inr final_output \<Rightarrow> (None, l1\<lparr>written := written l1 @ [final_output]\<rparr>))"

subsection \<open>The question section (lines 58-67)\<close>

definition answer_section :: "'e runner \<Rightarrow> agent \<Rightarrow> inputs \<Rightarrow> log \<Rightarrow> 'e exn option \<times> log" where
  "answer_section Runner_run a u l =
     (if get_answer u \<and> strip (question u) \<noteq> []
      then respond Runner_run a (question u) l
      else (None, l))"

subsection \<open>The tools section (lines 70-115)\<close>

text \<open>Line 83: the texts of the pages that have one, joined, cut at 8000.\<close>

definition pdf_text :: "str list \<Rightarrow> str" where
  "pdf_text pages = take 8000 (concat (filter (\<lambda>t. t \<noteq> []) pages))"

text \<open>The four f-strings (lines 84, 93, 102, 111): a fixed text, then the payload.\<close>

definition summarize_lead_in :: str where
  "summarize_lead_in = lit ''Summarize the following research paper:'' @ [10, 10]"

definition summarize_prompt :: "str \<Rightarrow> str" where
  "summarize_prompt text = summarize_lead_in @ text"

definition keywords_prompt :: "str \<Rightarrow> str" where
  "keywords_prompt c =
     lit ''Extract the most relevant keywords from this content:'' @ [10, 10] @ c"

definition apa_prompt :: "str \<Rightarrow> str" where
  "apa_prompt r =
     lit ''Generate APA references from the following text:'' @ [10, 10] @ r"

definition concept_prompt :: "str \<Rightarrow> str" where
  "concept_prompt c =
     lit ''Explain the following concept in simple academic terms:'' @ [10, 10] @ c"

definition tools_section :: "'e runner \<Rightarrow> agent \<Rightarrow> inputs \<Rightarrow> log \<Rightarrow> 'e exn option \<times> log" where
  "tools_section Runner_run a u l =
     (case tool u of
        No_Tool \<Rightarrow> (None, l)
      | PDF_Summarization \<Rightarrow>
          (case pdf u of
             None \<Rightarrow> (None, l)
           | Some pages \<Rightarrow>
               if summarize_pdf u
               then respond Runner_run a (summarize_prompt (pdf_text pages)) l
               else (None, l))
      | Keyword_Extraction \<Rightarrow>
          if extract_keywords u \<and> content u \<noteq> []
          then respond Runner_run a (keywords_prompt (content u)) l
          else (None, l)
      | APA_Reference_Generator \<Rightarrow>
          if generate_apa u \<and> reference_text u \<noteq> []
          then respond Runner_run a (apa_prompt (reference_text u)) l
          else (None, l)
      | Concept_Explainer \<Rightarrow>
          if explain_concept u \<and> concept u \<noteq> []
          then respond Runner_run a (concept_prompt (concept u)) l
          else (None, l))"

subsection \<open>One run of the script, and a session of runs\<close>

datatype 'e status = Completed | Stopped | Raised "'e exn"

text \<open>\<open>not api_key\<close> (line 11): the variable is unset, or set to the empty string.\<close>

definition no_key :: "str option \<Rightarrow> bool" where
  "no_key k = (case k of None \<Rightarrow> True | Some s \<Rightarrow> s = [])"

definition script :: "'e runner \<Rightarrow> inputs \<Rightarrow> 'e status \<times> log" where
  "script Runner_run u =
     (if no_key (api_key u) then (Stopped, empty_log)
      else
        case instructions (mode u) of
          None \<Rightarrow> (Raised KeyError, empty_log)
        | Some ins \<Rightarrow>
            (let a = \<lparr>agent_name = lit ''Research Agent'', agent_instructions = ins\<rparr> in
             (case answer_section Runner_run a u empty_log of
                (Some e, l) \<Rightarrow> (Raised e, l)
              | (None, l) \<Rightarrow>
                  (case tools_section Runner_run a u l of
                     (Some e, l') \<Rightarrow> (Raised e, l')
                   | (None, l') \<Rightarrow> (Completed, l')))))"

text \<open>
  A session is a sequence of interactions. The script keeps nothing between runs (it
  uses neither \<open>st.session_state\<close> nor a cache): each run starts from the inputs of
  its own interaction.
\<close>

definition session :: "'e runner \<Rightarrow> inputs list \<Rightarrow> ('e status \<times> log) list" where
  "session Runner_run us = map (script Runner_run) us"

definition prompts :: "log \<Rightarrow> str list" where
  "prompts l = map snd (calls l)"

subsection \<open>Concrete inputs\<close>

text \<open>
  The page as it is first loaded with the key set: nothing typed, nothing clicked. The
  examples below change the fields they need.
\<close>

definition idle :: inputs where
  "idle = \<lparr>api_key = Some (lit ''key''), mode = Simple, question = [], get_answer = False,
     tool = No_Tool, pdf = None, summarize_pdf = False, content = [],
     extract_keywords = False, reference_text = [], generate_apa = False, concept = [],
     explain_concept = False\<rparr>"

text \<open>
  Three completion services to run the examples with: one answers with the prompt it
  got, one with the agent's instructions, one always fails with the same error.
\<close>

definition echo :: "nat runner" where
  "echo a p = Inr p"

definition recite :: "nat runner" where
  "recite a p = Inr (agent_instructions a)"

definition unavailable :: "nat runner" where
  "unavailable a p = Inl 503"

definition research_agent :: "mode \<Rightarrow> agent" where
  "research_agent m =
     \<lparr>agent_name = lit ''Research Agent'',
      agent_instructions = (case instructions m of Some ins \<Rightarrow> ins | None \<Rightarrow> [])\<rparr>"

subsection \<open>Auxiliary notions for the proofs\<close>

text \<open>
  The prompt each section sends, if it sends one, read off the section's branches;
  \<open>answer_section_send\<close> and \<open>tools_section_send\<close> below show that a section is
  \<open>send\<close> of its prompt.
\<close>

definition answer_prompt :: "inputs \<Rightarrow> str option" where
  "answer_prompt u =
     (if get_answer u \<and> strip (question u) \<noteq> [] then Some (question u) else None)"

definition tool_prompt :: "inputs \<Rightarrow> str option" where
  "tool_prompt u =
     (case tool u of
        No_Tool \<Rightarrow> None
      | PDF_Summarization \<Rightarrow>
          (case pdf u of
             None \<Rightarrow> None
           | Some pages \<Rightarrow>
               if summarize_pdf u then Some (summarize_prompt (pdf_text pages)) else None)
      | Keyword_Extraction \<Rightarrow>
          if extract_keywords u \<and> content u \<noteq> [] then Some (keywords_prompt (content u))
          else None
      | APA_Reference_Generator \<Rightarrow>
          if generate_apa u \<and> reference_text u \<noteq> [] then Some (apa_prompt (reference_text u))
          else None
      | Concept_Explainer \<Rightarrow>
          if explain_concept u \<and> concept u \<noteq> [] then Some (concept_prompt (concept u))
          else None)"

definition option_list :: "'a option \<Rightarrow> 'a list" where
  "option_list x = (case x of None \<Rightarrow> [] | Some y \<Rightarrow> [y])"

definition send :: "'e runner \<Rightarrow> agent \<Rightarrow> str option \<Rightarrow> log \<Rightarrow> 'e exn option \<times> log" where
  "send R a po l = (case po of None \<Rightarrow> (None, l) | Some p \<Rightarrow> respond R a p l)"

text \<open>
  A log in which every call returned and its output was written. A run keeps its log
  so until a call raises.
\<close>

definition log_ok :: "'e runner \<Rightarrow> log \<Rightarrow> bool" where
  "log_ok R l \<longleftrightarrow> length (written l) = length (calls l) \<and>
     (\<forall>i < length (calls l). \<exists>out. R (fst (calls l ! i)) (snd (calls l ! i)) = Inr out)"

section \<open>Properties\<close>

subsection \<open>Helper facts\<close>

lemma lit_Nil_iff: "lit s = [] \<longleftrightarrow> s = []"
  by (simp add: lit_def)

lemma instructions_defined: "\<exists>ins. instructions m = Some ins"
  by (cases m) (simp_all add: instructions_def)

lemma concat_nonempty_pages: "concat (filter (\<lambda>t. t \<noteq> []) pages) = concat pages"
  by (induction pages) auto

lemma respond_cases:
  "respond R a p l =
     (case R a p of
        Inl e \<Rightarrow> (Some (RunnerError e), \<lparr>calls = calls l @ [(a, p)], written = written l\<rparr>)
      | Inr out \<Rightarrow> (None, \<lparr>calls = calls l @ [(a, p)], written = written l @ [out]\<rparr>))"
  by (simp add: respond_def Let_def split: sum.splits)

lemma respond_calls: "calls (snd (respond R a p l)) = calls l @ [(a, p)]"
  by (simp add: respond_cases split: sum.splits)

lemmas run_defs = script_def no_key_def instructions_def answer_section_def
  tools_section_def respond_cases prompts_def empty_log_def echo_def recite_def
  unavailable_def

lemma answer_section_send: "answer_section R a u l = send R a (answer_prompt u) l"
  by (simp add: answer_section_def answer_prompt_def send_def)

lemma tools_section_send: "tools_section R a u l = send R a (tool_prompt u) l"
  by (cases "tool u"; cases "pdf u") (simp_all add: tools_section_def tool_prompt_def send_def)

lemma answer_prompt_mode: "answer_prompt (u\<lparr>mode := m\<rparr>) = answer_prompt u"
  by (simp add: answer_prompt_def)

lemma tool_prompt_mode: "tool_prompt (u\<lparr>mode := m\<rparr>) = tool_prompt u"
  by (cases "tool u"; cases "pdf u") (simp_all add: tool_prompt_def)

lemma prompts_send: "prompts (snd (send R a po l)) = prompts l @ option_list po"
  by (cases po) (simp_all add: send_def prompts_def respond_calls option_list_def)

lemma send_agent:
  assumes "c \<in> set (calls (snd (send R a po l)))"
  shows "c \<in> set (calls l) \<or> fst c = a"
  using assms by (cases po) (auto simp: send_def respond_calls)

lemma send_Some:
  assumes "send R a po l = (Some x, l')"
  shows "\<exists>p e. R a p = Inl e \<and> x = RunnerError e \<and> calls l' = calls l @ [(a, p)] \<and>
           written l' = written l"
  using assms by (cases po) (auto simp: send_def respond_cases split: sum.splits)

lemma send_None:
  assumes "send R a po l = (None, l')"
  shows "l' = l \<or>
         (\<exists>p out. R a p = Inr out \<and> calls l' = calls l @ [(a, p)] \<and>
            written l' = written l @ [out])"
  using assms by (cases po) (auto simp: send_def respond_cases split: sum.splits)

text \<open>A run with the key set is the two sections in a row, the second only if the
  first did not raise.\<close>

lemma script_sections:
  assumes "\<not> no_key (api_key u)" and "instructions (mode u) = Some ins"
    and "a = \<lparr>agent_name = lit ''Research Agent'', agent_instructions = ins\<rparr>"
    and "send R a (answer_prompt u) empty_log = (r1, l1)"
    and "send R a (tool_prompt u) l1 = (r2, l2)"
  shows "script R u =
      (case r1 of Some e \<Rightarrow> (Raised e, l1)
       | None \<Rightarrow> (case r2 of Some e \<Rightarrow> (Raised e, l2) | None \<Rightarrow> (Completed, l2)))"
  using assms
  by (simp add: script_def answer_section_send tools_section_send split: option.splits)

lemma script_prompts:
  "prefix (prompts (snd (script R u))) (option_list (answer_prompt u) @ option_list (tool_prompt u)) \<and>
   (fst (script R u) = Completed \<longrightarrow>
      prompts (snd (script R u)) = option_list (answer_prompt u) @ option_list (tool_prompt u))"
proof (cases "no_key (api_key u)")
  case True
  then show ?thesis by (simp add: script_def empty_log_def prompts_def)
next
  case False
  obtain ins where ins: "instructions (mode u) = Some ins"
    using instructions_defined by blast
  define a where "a = \<lparr>agent_name = lit ''Research Agent'', agent_instructions = ins\<rparr>"
  obtain r1 l1 where q: "send R a (answer_prompt u) empty_log = (r1, l1)"
    by (cases "send R a (answer_prompt u) empty_log")
  have p1: "prompts l1 = option_list (answer_prompt u)"
    using prompts_send [of R a "answer_prompt u" empty_log] q
    by (simp add: empty_log_def prompts_def)
  obtain r2 l2 where t: "send R a (tool_prompt u) l1 = (r2, l2)"
    by (cases "send R a (tool_prompt u) l1")
  have p2: "prompts l2 = option_list (answer_prompt u) @ option_list (tool_prompt u)"
    using prompts_send [of R a "tool_prompt u" l1] t p1 by simp
  show ?thesis
    using script_sections [OF False ins a_def q t] p1 p2 by (auto split: option.splits)
qed

lemma script_agent:
  assumes "c \<in> set (calls (snd (script R u)))"
  shows "agent_name (fst c) = lit ''Research Agent'' \<and>
         instructions (mode u) = Some (agent_instructions (fst c))"
proof (cases "no_key (api_key u)")
  case True
  with assms show ?thesis by (simp add: script_def empty_log_def)
next
  case False
  obtain ins where ins: "instructions (mode u) = Some ins"
    using instructions_defined by blast
  define a where "a = \<lparr>agent_name = lit ''Research Agent'', agent_instructions = ins\<rparr>"
  obtain r1 l1 where q: "send R a (answer_prompt u) empty_log = (r1, l1)"
    by (cases "send R a (answer_prompt u) empty_log")
  obtain r2 l2 where t: "send R a (tool_prompt u) l1 = (r2, l2)"
    by (cases "send R a (tool_prompt u) l1")
  have c1: "\<forall>c \<in> set (calls l1). fst c = a"
    using send_agent [of _ R a "answer_prompt u" empty_log] q by (auto simp: empty_log_def)
  have c2: "\<forall>c \<in> set (calls l2). fst c = a"
    using send_agent [of _ R a "tool_prompt u" l1] t c1 by auto
  have "fst c = a"
    using assms script_sections [OF False ins a_def q t] c1 c2 by (auto split: option.splits)
  with ins show ?thesis by (simp add: a_def)
qed

lemma log_ok_empty: "log_ok R empty_log"
  by (simp add: log_ok_def empty_log_def)

lemma log_ok_None:
  assumes "log_ok R l" and "send R a po l = (None, l')"
  shows "log_ok R l'"
  using assms(1) send_None [OF assms(2)]
  by (auto simp: log_ok_def nth_append less_Suc_eq)

lemma log_ok_Some:
  assumes "log_ok R l" and "send R a po l = (Some x, l')"
    and "i < length (calls l')" and "R (fst (calls l' ! i)) (snd (calls l' ! i)) = Inl e"
  shows "x = RunnerError e \<and> Suc i = length (calls l') \<and> length (written l') = i"
proof -
  obtain p e' where s: "R a p = Inl e'" "x = RunnerError e'" "calls l' = calls l @ [(a, p)]"
      "written l' = written l"
    using send_Some [OF assms(2)] by blast
  show ?thesis
  proof (cases "i < length (calls l)")
    case True
    then have "\<exists>out. R (fst (calls l' ! i)) (snd (calls l' ! i)) = Inr out"
      using assms(1) s(3) by (simp add: log_ok_def nth_append)
    with assms(4) show ?thesis by simp
  next
    case False
    then have i: "i = length (calls l)" using assms(3) s(3) by simp
    then have "calls l' ! i = (a, p)" using s(3) by simp
    with assms(4) s(1) have "e' = e" by simp
    with i s assms(1) show ?thesis by (simp add: log_ok_def)
  qed
qed

lemma log_ok_no_Inl:
  assumes "log_ok R l" and "i < length (calls l)"
  shows "R (fst (calls l ! i)) (snd (calls l ! i)) \<noteq> Inl e"
  using assms by (fastforce simp: log_ok_def)

subsection \<open>The instruction table\<close>

text \<open>
  C6. The lookup of an instruction is total over the three response styles Simple,
  Explain Like I'm 5 and Technical: every style has an entry, the entry is a non-empty
  string, and the three entries are pairwise distinct.
\<close>

theorem instructions_total_nonempty_distinct:
  "(\<exists>s. instructions m = Some s \<and> s \<noteq> []) \<and>
   instructions Simple \<noteq> instructions Explain_Like_Im_5 \<and>
   instructions Simple \<noteq> instructions Technical \<and>
   instructions Explain_Like_Im_5 \<noteq> instructions Technical"
  by (cases m) (simp_all add: instructions_def lit_def)

subsection \<open>Empty and blank payloads\<close>

text \<open>
  What the guards of the three text tools (lines 92, 101, 110) do stop: they test the
  field itself, so on the empty string the tools section makes no call, writes nothing
  and raises nothing.
\<close>

lemma empty_text_field_no_call:
  assumes "tool u = Keyword_Extraction \<and> content u = [] \<or>
           tool u = APA_Reference_Generator \<and> reference_text u = [] \<or>
           tool u = Concept_Explainer \<and> concept u = []"
  shows "tools_section R a u l = (None, l)"
  using assms by (auto simp: tools_section_def)

text \<open>
  C1. A payload of whitespace only is not suppressed by the tool branches. With one
  space in the field and the button clicked, each of Keyword Extraction, APA Reference
  Generator and Concept Explainer builds its prompt and calls the agent with it, while
  the question path (line 62, which strips) makes no call on the same input.
\<close>

theorem whitespace_payload_is_sent:
  "strip [32] = [] \<and>
   prompts (snd (script echo
     (idle\<lparr>tool := Keyword_Extraction, content := [32], extract_keywords := True\<rparr>))) =
   [keywords_prompt [32]] \<and>
   prompts (snd (script echo
     (idle\<lparr>tool := APA_Reference_Generator, reference_text := [32], generate_apa := True\<rparr>))) =
   [apa_prompt [32]] \<and>
   prompts (snd (script echo
     (idle\<lparr>tool := Concept_Explainer, concept := [32], explain_concept := True\<rparr>))) =
   [concept_prompt [32]] \<and>
   prompts (snd (script echo (idle\<lparr>get_answer := True, question := [32]\<rparr>))) = []"
  by (simp add: run_defs idle_def lit_Nil_iff strip_def isspace_def)

text \<open>
  C2. The PDF branch (lines 79-88) has no guard on the extracted text. At a PDF of two
  pages with no extractable text, the text is empty and the run still calls the agent,
  with the lead-in alone as the prompt.
\<close>

theorem empty_pdf_is_summarized:
  "pdf_text [[], []] = [] \<and>
   prompts (snd (script echo
     (idle\<lparr>tool := PDF_Summarization, pdf := Some [[], []], summarize_pdf := True\<rparr>))) =
   [summarize_lead_in]"
  by (simp add: run_defs idle_def lit_Nil_iff pdf_text_def summarize_prompt_def)

subsection \<open>The PDF prompt\<close>

text \<open>
  C3. The extracted document text is the texts of the pages, joined. When the PDF
  button's action runs, the payload put into the summarization template is the first
  8000 characters of that text if it is longer than 8000, and the whole text otherwise.
\<close>

theorem pdf_payload_truncated:
  assumes "tool u = PDF_Summarization" and "pdf u = Some pages" and "summarize_pdf u"
  shows "calls (snd (tools_section R a u l)) =
           calls l @ [(a, summarize_prompt
              (if 8000 < length (concat pages) then take 8000 (concat pages) else concat pages))]"
  using assms
  by (simp add: tools_section_def pdf_text_def respond_calls concat_nonempty_pages)

theorem pdf_payload_truncated_witness:
  "calls (snd (tools_section echo \<lparr>agent_name = [], agent_instructions = []\<rparr>
     (idle\<lparr>tool := PDF_Summarization,
           pdf := Some [replicate 5000 65, [], replicate 5000 66],
           summarize_pdf := True\<rparr>) empty_log)) =
   [(\<lparr>agent_name = [], agent_instructions = []\<rparr>,
     summarize_prompt (replicate 5000 65 @ replicate 3000 66))]"
  using pdf_payload_truncated
    [of "idle\<lparr>tool := PDF_Summarization,
              pdf := Some [replicate 5000 65, [], replicate 5000 66],
              summarize_pdf := True\<rparr>"
        "[replicate 5000 65, [], replicate 5000 66]" echo
        "\<lparr>agent_name = [], agent_instructions = []\<rparr>" empty_log]
  by (simp add: idle_def empty_log_def)

text \<open>
  C5. For a non-empty payload X (the text cut from the PDF), the prompt of PDF
  summarization is the fixed lead-in followed by X: the run sends exactly that prompt,
  the lead-in is not empty, the prompt starts with it and what follows it is X.
\<close>

theorem summarize_prompt_lead_in_then_payload:
  assumes "\<not> no_key (api_key u)" and "\<not> get_answer u" and "tool u = PDF_Summarization"
    and "pdf u = Some pages" and "summarize_pdf u" and "pdf_text pages = X" and "X \<noteq> []"
  shows "prompts (snd (script R u)) = [summarize_prompt X] \<and>
         summarize_lead_in \<noteq> [] \<and>
         take (length summarize_lead_in) (summarize_prompt X) = summarize_lead_in \<and>
         drop (length summarize_lead_in) (summarize_prompt X) = X"
proof -
  obtain ins where "instructions (mode u) = Some ins"
    using instructions_defined by blast
  then have "prompts (snd (script R u)) = [summarize_prompt X]" using assms
    by (simp add: script_def Let_def answer_section_def tools_section_def respond_cases
        prompts_def empty_log_def split: sum.splits)
  then show ?thesis
    by (simp add: summarize_prompt_def summarize_lead_in_def)
qed

theorem summarize_prompt_lead_in_then_payload_witness:
  "prompts (snd (script echo
     (idle\<lparr>tool := PDF_Summarization, pdf := Some [lit ''X''], summarize_pdf := True\<rparr>))) =
   [lit ''Summarize the following research paper:'' @ [10, 10] @ lit ''X'']"
  using summarize_prompt_lead_in_then_payload
    [of "idle\<lparr>tool := PDF_Summarization, pdf := Some [lit ''X''], summarize_pdf := True\<rparr>"
        "[lit ''X'']" "lit ''X''" echo]
  by (simp add: idle_def no_key_def lit_def pdf_text_def summarize_prompt_def
      summarize_lead_in_def)

subsection \<open>The research question\<close>

text \<open>
  C4, as the script has it. With no tool selected and the answer button clicked, a
  question that has a character other than whitespace is passed to the agent as the
  prompt exactly as typed, with nothing added or removed; for a question that is empty
  or all whitespace the guard of line 62 suppresses the action and no prompt is passed.
\<close>

theorem question_passed_verbatim:
  assumes "\<not> no_key (api_key u)" and "tool u = No_Tool" and "get_answer u"
  shows "prompts (snd (script R u)) = (if strip (question u) = [] then [] else [question u])"
proof -
  obtain ins where "instructions (mode u) = Some ins"
    using instructions_defined by blast
  then show ?thesis using assms
    by (simp add: script_def Let_def answer_section_def tools_section_def respond_cases
        prompts_def empty_log_def split: sum.splits)
qed

theorem question_passed_verbatim_witness:
  "prompts (snd (script echo
     (idle\<lparr>get_answer := True, question := lit ''What is quantum entanglement?''\<rparr>))) =
   [lit ''What is quantum entanglement?'']"
  using question_passed_verbatim
    [of "idle\<lparr>get_answer := True, question := lit ''What is quantum entanglement?''\<rparr>" echo]
  by (simp add: idle_def no_key_def strip_def isspace_def lit_def)

text \<open>
  C4 as stated fails on a blank question: with the answer button clicked and the
  question empty, or a space and a tab, the run passes nothing to the agent.
\<close>

theorem blank_question_counterexample:
  "calls (snd (script echo (idle\<lparr>get_answer := True, question := []\<rparr>))) = [] \<and>
   calls (snd (script echo (idle\<lparr>get_answer := True, question := [32, 9]\<rparr>))) = []"
  by (simp add: run_defs idle_def lit_Nil_iff strip_def isspace_def)

subsection \<open>The missing key\<close>

text \<open>
  C7. If the key read from the environment is absent or empty, the run stops at
  line 13, before any widget of the page: it makes no call and writes no output. As
  every interaction runs the script from its first line, no interaction of a session
  whose environment has no key gets further.
\<close>

theorem missing_key_stops:
  assumes "\<forall>u \<in> set us. api_key u = None \<or> api_key u = Some []"
  shows "session R us = replicate (length us) (Stopped, empty_log)"
  using assms by (induction us) (auto simp: session_def script_def no_key_def)

theorem missing_key_stops_witness:
  "session echo
     [idle\<lparr>api_key := None, get_answer := True, question := lit ''What is entropy?''\<rparr>,
      idle\<lparr>api_key := Some [], tool := Concept_Explainer, concept := lit ''entropy'',
           explain_concept := True\<rparr>] =
   [(Stopped, empty_log), (Stopped, empty_log)]"
  using missing_key_stops
    [of "[idle\<lparr>api_key := None, get_answer := True, question := lit ''What is entropy?''\<rparr>,
          idle\<lparr>api_key := Some [], tool := Concept_Explainer, concept := lit ''entropy'',
               explain_concept := True\<rparr>]" echo]
  by (simp add: idle_def)

subsection \<open>Errors of the completion call\<close>

text \<open>
  C8. An error of the completion call goes through the run unchanged. If any call the
  run made raised an error, then the run ended with that very error, the call was the
  last one the run made (nothing was retried and nothing ran after it), and no output
  was written for it: the outputs written are those of the calls before it.
\<close>

theorem runner_error_propagates:
  assumes "script R u = (st, l)" and "i < length (calls l)"
    and "R (fst (calls l ! i)) (snd (calls l ! i)) = Inl e"
  shows "st = Raised (RunnerError e) \<and> Suc i = length (calls l) \<and> length (written l) = i"
proof (cases "no_key (api_key u)")
  case True
  with assms(1,2) show ?thesis by (auto simp: script_def empty_log_def)
next
  case False
  obtain ins where ins: "instructions (mode u) = Some ins"
    using instructions_defined by blast
  define a where "a = \<lparr>agent_name = lit ''Research Agent'', agent_instructions = ins\<rparr>"
  obtain r1 l1 where q: "send R a (answer_prompt u) empty_log = (r1, l1)"
    by (cases "send R a (answer_prompt u) empty_log")
  obtain r2 l2 where t: "send R a (tool_prompt u) l1 = (r2, l2)"
    by (cases "send R a (tool_prompt u) l1")
  note s = script_sections [OF False ins a_def q t]
  show ?thesis
  proof (cases r1)
    case (Some x)
    with s assms(1) have "st = Raised x" "l = l1" by simp_all
    with log_ok_Some [OF log_ok_empty, of R a "answer_prompt u" x l1 i e] q Some assms(2,3)
    show ?thesis by simp
  next
    case None
    then have ok1: "log_ok R l1" using log_ok_None [OF log_ok_empty] q by blast
    show ?thesis
    proof (cases r2)
      case (Some x)
      with s None assms(1) have "st = Raised x" "l = l2" by simp_all
      with log_ok_Some [OF ok1, of a "tool_prompt u" x l2 i e] t Some assms(2,3)
      show ?thesis by simp
    next
      case None2: None
      with s None assms(1) have "l = l2" by simp
      moreover have "log_ok R l2" using log_ok_None [OF ok1] t None2 by blast
      ultimately have "log_ok R l" by simp
      from log_ok_no_Inl [OF this assms(2), of e] assms(3) show ?thesis by simp
    qed
  qed
qed

theorem runner_error_propagates_witness:
  "script unavailable
     (idle\<lparr>tool := Concept_Explainer, concept := lit ''entropy'', explain_concept := True\<rparr>) =
   (Raised (RunnerError 503),
    \<lparr>calls =
       [(\<lparr>agent_name = lit ''Research Agent'',
          agent_instructions =
            lit ''Give a short, clear, and factual response for any academic or research question.''\<rparr>,
         concept_prompt (lit ''entropy''))],
     written = []\<rparr>)"
proof -
  let ?u = "idle\<lparr>tool := Concept_Explainer, concept := lit ''entropy'', explain_concept := True\<rparr>"
  obtain st l where r: "script unavailable ?u = (st, l)"
    by (cases "script unavailable ?u")
  then have c: "calls l =
      [(\<lparr>agent_name = lit ''Research Agent'',
         agent_instructions =
           lit ''Give a short, clear, and factual response for any academic or research question.''\<rparr>,
        concept_prompt (lit ''entropy''))]"
    by (auto simp: run_defs idle_def lit_Nil_iff)
  have "st = Raised (RunnerError 503) \<and> Suc 0 = length (calls l) \<and> length (written l) = 0"
    using runner_error_propagates [OF r, of 0 503] c by (simp add: unavailable_def)
  with r c show ?thesis by (cases l) simp
qed

subsection \<open>The agent of a run\<close>

text \<open>
  C9. In every interaction of a session, each call is made with one and the same
  agent: its name is "Research Agent" and its instructions are the entry of the
  instruction table for the style selected in that interaction. Nothing of an earlier
  interaction enters: a run is a function of its own inputs.
\<close>

theorem agent_from_selected_mode:
  assumes "i < length us" and "c \<in> set (calls (snd (session R us ! i)))"
  shows "agent_name (fst c) = lit ''Research Agent'' \<and>
         instructions (mode (us ! i)) = Some (agent_instructions (fst c))"
  using assms script_agent [of c R "us ! i"] by (simp add: session_def)

theorem agent_from_selected_mode_witness:
  "map (\<lambda>r. map fst (calls (snd r)))
     (session echo
       [idle\<lparr>mode := Technical, get_answer := True, question := lit ''What is entropy?''\<rparr>,
        idle\<lparr>mode := Explain_Like_Im_5, get_answer := True,
             question := lit ''What is entropy?''\<rparr>]) =
   [[\<lparr>agent_name = lit ''Research Agent'',
      agent_instructions =
        lit ''Provide a detailed and technical explanation with examples, references, or formulas if needed.''\<rparr>],
    [\<lparr>agent_name = lit ''Research Agent'',
      agent_instructions =
        lit ''Explain the answer in very simple, easy-to-understand terms, like to a 5-year-old.''\<rparr>]]"
proof -
  let ?u1 = "idle\<lparr>mode := Technical, get_answer := True, question := lit ''What is entropy?''\<rparr>"
  let ?u2 = "idle\<lparr>mode := Explain_Like_Im_5, get_answer := True,
                  question := lit ''What is entropy?''\<rparr>"
  have q: "strip (lit ''What is entropy?'') \<noteq> []"
    by (simp add: strip_def isspace_def lit_def)
  have "\<exists>a. calls (snd (session echo [?u1, ?u2] ! 1)) = [(a, lit ''What is entropy?'')]"
    using q by (simp add: session_def run_defs idle_def lit_Nil_iff)
  then obtain a where a: "calls (snd (session echo [?u1, ?u2] ! 1)) = [(a, lit ''What is entropy?'')]"
    by blast
  have "agent_name a = lit ''Research Agent'' \<and>
        instructions (mode ([?u1, ?u2] ! 1)) = Some (agent_instructions a)"
    using agent_from_selected_mode [of 1 "[?u1, ?u2]" "(a, lit ''What is entropy?'')" echo] a
    by simp
  then have "a = \<lparr>agent_name = lit ''Research Agent'',
      agent_instructions =
        lit ''Explain the answer in very simple, easy-to-understand terms, like to a 5-year-old.''\<rparr>"
    by (cases a) (simp add: instructions_def)
  with a q show ?thesis
    by (simp add: session_def run_defs idle_def lit_Nil_iff)
qed

subsection \<open>The style does not reach the prompt\<close>

text \<open>
  C10. Two runs that differ only in the selected style build the same prompts. Each
  section passes the same prompt whatever the agent and whatever the completion
  service answers; over the whole run, the prompts of one run are an initial part of
  those of the other (a run is cut short where a call raises), and two runs that both
  complete pass the same prompts.
\<close>

theorem prompt_independent_of_mode:
  "prompts (snd (answer_section R a u l)) =
     prompts (snd (answer_section R' a' (u\<lparr>mode := m\<rparr>) l)) \<and>
   prompts (snd (tools_section R a u l)) =
     prompts (snd (tools_section R' a' (u\<lparr>mode := m\<rparr>) l)) \<and>
   (prefix (prompts (snd (script R u))) (prompts (snd (script R' (u\<lparr>mode := m\<rparr>)))) \<or>
    prefix (prompts (snd (script R' (u\<lparr>mode := m\<rparr>)))) (prompts (snd (script R u)))) \<and>
   (fst (script R u) = Completed \<and> fst (script R' (u\<lparr>mode := m\<rparr>)) = Completed \<longrightarrow>
    prompts (snd (script R u)) = prompts (snd (script R' (u\<lparr>mode := m\<rparr>))))"
proof -
  let ?all = "option_list (answer_prompt u) @ option_list (tool_prompt u)"
  have "prompts (snd (answer_section R a u l)) =
      prompts (snd (answer_section R' a' (u\<lparr>mode := m\<rparr>) l))"
    by (simp add: answer_section_send prompts_send answer_prompt_mode)
  moreover
  have "prompts (snd (tools_section R a u l)) =
      prompts (snd (tools_section R' a' (u\<lparr>mode := m\<rparr>) l))"
    by (simp add: tools_section_send prompts_send tool_prompt_mode)
  moreover
  have p: "prefix (prompts (snd (script R u))) ?all"
    and c: "fst (script R u) = Completed \<longrightarrow> prompts (snd (script R u)) = ?all"
    using script_prompts [of R u] by blast+
  have p': "prefix (prompts (snd (script R' (u\<lparr>mode := m\<rparr>)))) ?all"
    and c': "fst (script R' (u\<lparr>mode := m\<rparr>)) = Completed \<longrightarrow>
        prompts (snd (script R' (u\<lparr>mode := m\<rparr>))) = ?all"
    using script_prompts [of R' "u\<lparr>mode := m\<rparr>"]
    by (simp_all add: answer_prompt_mode tool_prompt_mode)
  have "prefix (prompts (snd (script R u))) (prompts (snd (script R' (u\<lparr>mode := m\<rparr>)))) \<or>
    prefix (prompts (snd (script R' (u\<lparr>mode := m\<rparr>)))) (prompts (snd (script R u)))"
    using prefix_same_cases [OF p p'] .
  moreover
  have "fst (script R u) = Completed \<and> fst (script R' (u\<lparr>mode := m\<rparr>)) = Completed \<longrightarrow>
    prompts (snd (script R u)) = prompts (snd (script R' (u\<lparr>mode := m\<rparr>)))"
    using c c' by simp
  ultimately show ?thesis by blast
qed

theorem prompt_independent_of_mode_witness:
  "prompts (snd (script recite
     (idle\<lparr>tool := APA_Reference_Generator, reference_text := lit ''Knuth 1968'',
           generate_apa := True\<rparr>))) =
   prompts (snd (script recite
     (idle\<lparr>tool := APA_Reference_Generator, reference_text := lit ''Knuth 1968'',
           generate_apa := True, mode := Technical\<rparr>)))"
proof -
  let ?u = "idle\<lparr>tool := APA_Reference_Generator, reference_text := lit ''Knuth 1968'',
                 generate_apa := True\<rparr>"
  have c: "fst (script recite ?u) = Completed \<and>
           fst (script recite (?u\<lparr>mode := Technical\<rparr>)) = Completed"
    by (simp add: run_defs idle_def lit_Nil_iff)
  have "fst (script recite ?u) = Completed \<and>
        fst (script recite (?u\<lparr>mode := Technical\<rparr>)) = Completed \<longrightarrow>
      prompts (snd (script recite ?u)) = prompts (snd (script recite (?u\<lparr>mode := Technical\<rparr>)))"
    using prompt_independent_of_mode
      [of recite "\<lparr>agent_name = [], agent_instructions = []\<rparr>" ?u empty_log
          recite "\<lparr>agent_name = [], agent_instructions = []\<rparr>" Technical]
    by blast
  with c show ?thesis by blast
qed

end
